theory Spec2Isabelle
  imports Complex_Main "HOL-Library.Stream"
begin

section \<open>Information cascades on an adjusting network\<close>

text \<open>
  A shallow embedding of two Python functions of the repository and of the driver that
  calls them:
  \<^item> \<^verbatim>\<open>adjust_tie\<close> and \<^verbatim>\<open>sim_adjusting_network\<close> of
    \<^verbatim>\<open>model/scripts/deprecated/model_networkbreaking_allmethods.py\<close>;
  \<^item> \<^verbatim>\<open>evaluate_behavior\<close> of
    \<^verbatim>\<open>scripts/cascade_models/cascades/evaluate_behavior.py\<close>.

  Conventions of the embedding.
  \<^item> A numpy matrix is the list of its rows; a column vector of shape \<open>(n, 1)\<close> and a
    flat vector of shape \<open>(n,)\<close> are both the list of their \<open>n\<close> entries.
  \<^item> Entries of the adjacency matrix and of the state vector are integers (the code only
    compares them with \<open>0\<close> and \<open>1\<close> and overwrites them with \<open>0\<close> and \<open>1\<close>).
    Thresholds, types and stimuli are real numbers: in the behavior evaluator
    floating-point rounding is idealised. The seed of the driver is computed with
    binary64 rounding after each operation, as line 48 does.
  \<^item> The global generator \<^verbatim>\<open>np.random\<close> is an explicit state: a stream of
    natural numbers, one consumed per call of \<^verbatim>\<open>np.random.choice\<close>. The draw
    \<open>r\<close> picks the candidate at position \<open>r mod len\<close>, so every candidate can be picked and
    nothing else can; the probability of a pick is not modelled.
  \<^item> A Python exception is a value \<open>Inl e\<close> of the result; a normal return is \<open>Inr\<close> of
    the returned value together with the generator left behind. In-place mutation of the
    network and of the data frame is the returned, updated value.
\<close>

subsection \<open>Data\<close>

datatype error = ValueError | IndexError | OverflowError

type_synonym rng = "nat stream"

type_synonym network = "int list list"

subsection \<open>numpy primitives used by the code\<close>

text \<open>\<^verbatim>\<open>np.where(xs == v)[0]\<close> on a vector (for a row \<^verbatim>\<open>network[[i], :]\<close>
  of shape \<open>(1, n)\<close> the code takes component \<open>[1]\<close>, the column indices): the indices
  whose entry equals \<open>v\<close>, ascending.\<close>

definition np_where_eq :: "int list \<Rightarrow> int \<Rightarrow> nat list" where
  "np_where_eq xs v = filter (\<lambda>i. xs ! i = v) [0..<length xs]"

text \<open>\<^verbatim>\<open>np.random.choice(a, size = 1)\<close>: raises \<^verbatim>\<open>ValueError\<close> on an empty
  population, otherwise consumes one draw and returns one element of \<open>a\<close>.\<close>

definition random_choice :: "'a list \<Rightarrow> rng \<Rightarrow> error + ('a \<times> rng)" where
  "random_choice a g =
     (if a = [] then Inl ValueError
      else Inr (a ! (shd g mod length a), stl g))"

text \<open>The assignment \<^verbatim>\<open>network[i, j] = v\<close>, with \<open>i\<close> and \<open>j\<close> in range at
  every use below.\<close>

definition set_tie :: "network \<Rightarrow> nat \<Rightarrow> nat \<Rightarrow> int \<Rightarrow> network" where
  "set_tie network i j v = network[i := (network ! i)[j := v]]"

subsection \<open>The tie adjuster\<close>

text \<open>Lines 197 to 199: the active individuals that are neighbours of the adjuster, one
  of them drawn (an empty list makes \<^verbatim>\<open>np.random.choice\<close> raise), and that tie
  set to \<open>0\<close>.\<close>

definition remove_tie :: "network \<Rightarrow> nat list \<Rightarrow> nat \<Rightarrow> nat list \<Rightarrow> rng \<Rightarrow> error + (network \<times> rng)" where
  "remove_tie network actives individual_active individual_neighbors g =
     (let perceived_incorrect = filter (\<lambda>ind. ind \<in> set individual_neighbors) actives in
      case random_choice perceived_incorrect g of
        Inl e \<Rightarrow> Inl e
      | Inr (break_tie, g1) \<Rightarrow> Inr (set_tie network individual_active break_tie 0, g1))"

text \<open>Lines 202 to 209 of \<^verbatim>\<open>adjust_tie\<close>: a former is drawn from
  \<^verbatim>\<open>range(0, n)\<close>; its potential ties are the columns holding \<open>0\<close> in its row,
  the former itself deleted (\<^verbatim>\<open>np.delete\<close> at the positions where the entry equals
  the former); a new tie is drawn and set only when the list is not empty.
  (\<^verbatim>\<open>np.squeeze\<close> turns the row of shape \<open>(1, n)\<close> into a vector; the step is
  only reached when an individual of index 1 or more is active, so a square network has
  \<open>n \<ge> 2\<close> there.)\<close>

definition form_tie :: "network \<Rightarrow> rng \<Rightarrow> error + (network \<times> rng)" where
  "form_tie network g =
     (let n = length network in
      case random_choice [0..<n] g of
        Inl e \<Rightarrow> Inl e
      | Inr (former_individual, g1) \<Rightarrow>
          let former_connections = network ! former_individual;
              potential_ties = np_where_eq former_connections 0;
              potential_ties = filter (\<lambda>j. j \<noteq> former_individual) potential_ties
          in if length potential_ties > 0
             then (case random_choice potential_ties g1 of
                     Inl e \<Rightarrow> Inl e
                   | Inr (new_tie, g2) \<Rightarrow> Inr (set_tie network former_individual new_tie 1, g2))
             else Inr (network, g1))"

text \<open>\<^verbatim>\<open>adjust_tie(network, states, correct_behavior)\<close>, lines 189 to 211. The guard of
  line 190 is Python's \<^verbatim>\<open>sum(actives) > 0\<close>: the sum of the active \<^emph>\<open>indices\<close>.
  Indexing \<^verbatim>\<open>correct_behavior\<close> (line 192) and the rows of the network (line 193) with
  an index past the end raises \<^verbatim>\<open>IndexError\<close>.\<close>

definition adjust_tie :: "network \<Rightarrow> int list \<Rightarrow> bool list \<Rightarrow> rng \<Rightarrow> error + (network \<times> rng)" where
  "adjust_tie network states correct_behavior g =
     (let actives = np_where_eq states 1 in
      if sum_list actives > 0
      then (case random_choice actives g of
              Inl e \<Rightarrow> Inl e
            | Inr (individual_active, g1) \<Rightarrow>
                if length correct_behavior \<le> individual_active then Inl IndexError
                else if length network \<le> individual_active then Inl IndexError
                else
                  let individual_correct = correct_behavior ! individual_active;
                      individual_neighbors = np_where_eq (network ! individual_active) 1
                  in if \<not> individual_correct
                     then (case remove_tie network actives individual_active individual_neighbors g1 of
                             Inl e \<Rightarrow> Inl e
                           | Inr (network1, g2) \<Rightarrow> form_tie network1 g2)
                     else Inr (network, g1))
      else Inr (network, g))"

subsection \<open>The behavior evaluator\<close>

text \<open>One row of the data frame \<^verbatim>\<open>behavior_df\<close>: the individual and its four
  counters. A data frame is the list of its rows, so its columns have one length, as in
  pandas.\<close>

record behavior_row =
  individual :: nat
  true_positive :: int
  false_negative :: int
  true_negative :: int
  false_positive :: int

type_synonym behavior_df = "behavior_row list"

text \<open>\<^verbatim>\<open>np.dot(types, np.transpose(stimuli))\<close> for \<open>types\<close> of shape \<open>(n, m)\<close>
  and \<open>stimuli\<close> of shape \<open>(1, m)\<close>: one inner product per individual.\<close>

definition np_dot :: "real list list \<Rightarrow> real list \<Rightarrow> real list" where
  "np_dot types stimuli = map (\<lambda>row. sum_list (map2 (*) row stimuli)) types"

text \<open>The elementwise operations of lines 26 to 29: \<^verbatim>\<open>states == v\<close>,
  \<^verbatim>\<open>~a\<close> and \<^verbatim>\<open>a & b\<close>.\<close>

definition np_eq :: "int list \<Rightarrow> int \<Rightarrow> bool list" where
  "np_eq states v = map (\<lambda>s. s = v) states"

definition np_not :: "bool list \<Rightarrow> bool list" where
  "np_not a = map Not a"

definition np_and :: "bool list \<Rightarrow> bool list \<Rightarrow> bool list" where
  "np_and a b = map2 (\<and>) a b"

text \<open>Lines 26 to 29: the four masks, in the order true positive, true negative, false
  positive, false negative.\<close>

definition error_types :: "int list \<Rightarrow> bool list \<Rightarrow> bool list \<times> bool list \<times> bool list \<times> bool list" where
  "error_types states correct_behavior =
     (np_and (np_eq states 1) correct_behavior,
      np_and (np_eq states 0) (np_not correct_behavior),
      np_and (np_eq states 1) (np_not correct_behavior),
      np_and (np_eq states 0) correct_behavior)"

text \<open>Lines 32 to 35: each mask is added to its column (\<^verbatim>\<open>True\<close> counts 1).\<close>

definition update_behavior :: "behavior_df \<Rightarrow> bool list \<times> bool list \<times> bool list \<times> bool list \<Rightarrow> behavior_df" where
  "update_behavior behavior_df masks =
     (case masks of (tp, tn, fp, fn) \<Rightarrow>
        map (\<lambda>i. (behavior_df ! i)
               \<lparr> true_positive := true_positive (behavior_df ! i) + of_bool (tp ! i),
                 false_negative := false_negative (behavior_df ! i) + of_bool (fn ! i),
                 true_negative := true_negative (behavior_df ! i) + of_bool (tn ! i),
                 false_positive := false_positive (behavior_df ! i) + of_bool (fp ! i) \<rparr>)
            [0..<length behavior_df])"

text \<open>\<^verbatim>\<open>evaluate_behavior(states, thresholds, stimuli, types, behavior_df)\<close>. The arrays
  are the column vectors the driver passes: \<open>n\<close> states, \<open>n\<close> thresholds, \<open>n\<close> rows of
  types, \<open>n\<close> rows of the data frame. A call whose shapes do not agree is a
  \<^verbatim>\<open>ValueError\<close> here (numpy's broadcasting of a length-one operand is not
  modelled).\<close>

definition evaluate_behavior ::
  "int list \<Rightarrow> real list \<Rightarrow> real list \<Rightarrow> real list list \<Rightarrow> behavior_df \<Rightarrow>
   error + (bool list \<times> behavior_df)" where
  "evaluate_behavior states thresholds stimuli types behavior_df =
     (if list_all (\<lambda>row. length row = length stimuli) types
         \<and> length thresholds = length types
         \<and> length states = length types
         \<and> length behavior_df = length types
      then
        let true_stim = np_dot types stimuli;
            correct_behavior = map2 (\<lambda>s th. s > th) true_stim thresholds;
            masks = error_types states correct_behavior
        in Inr (correct_behavior, update_behavior behavior_df masks)
      else Inl ValueError)"

subsection \<open>The simulation driver\<close>

text \<open>Python's \<^verbatim>\<open>int(x)\<close> on a float: truncation towards zero.\<close>

definition py_int :: "real \<Rightarrow> int" where
  "py_int x = (if 0 \<le> x then \<lfloor>x\<rfloor> else \<lceil>x\<rceil>)"

text \<open>The arithmetic of line 48 is Python's float arithmetic (IEEE binary64): each
  operation returns the exact result rounded to the nearest float, ties to the even
  mantissa. A float is a real number here; infinities and NaN are not values, an
  operation that overflows is \<^verbatim>\<open>OverflowError\<close> (the code gets \<open>inf\<close>, which stays
  \<open>inf\<close> through line 48, and \<^verbatim>\<open>int(inf)\<close> raises it). The sign of zero, which
  \<^verbatim>\<open>int\<close> does not see, is left out.\<close>

definition round_half_even :: "real \<Rightarrow> int" where
  "round_half_even x =
     (let f = \<lfloor>x\<rfloor>; d = x - of_int f
      in if d < 1 / 2 then f
         else if 1 / 2 < d then f + 1
         else if even f then f else f + 1)"

text \<open>The binary exponent of a non-zero real, not below that of the subnormal floats.\<close>

definition float64_exponent :: "real \<Rightarrow> int" where
  "float64_exponent x = max \<lfloor>log 2 \<bar>x\<bar>\<rfloor> (- 1022)"

text \<open>Rounding to binary64: 53 significant bits, so the floats around \<open>x\<close> are the
  multiples of \<open>2\<close> to the power of the exponent minus 52.\<close>

definition float64_round :: "real \<Rightarrow> error + real" where
  "float64_round x =
     (if x = 0 then Inr 0
      else let q = 2 powr of_int (float64_exponent x - 52);
               y = of_int (round_half_even (x / q)) * q
           in if 2 ^ 1024 \<le> \<bar>y\<bar> then Inl OverflowError else Inr y)"

text \<open>Line 48: \<^verbatim>\<open>seed = int( (replicate + 1 + gamma) * 323 )\<close>, for a replicate id that
  is a Python integer or a float and a float gamma: the sum \<open>replicate + 1\<close> (for an
  integer id it is exact and is rounded when it meets the float), the sum with gamma, the
  product with 323, each rounded, and the truncation.\<close>

definition seed_of :: "real \<Rightarrow> real \<Rightarrow> error + int" where
  "seed_of replicate_id gamma =
     (case float64_round (replicate_id + 1) of
        Inl e \<Rightarrow> Inl e
      | Inr a \<Rightarrow>
         (case float64_round (a + gamma) of
            Inl e \<Rightarrow> Inl e
          | Inr b \<Rightarrow>
             (case float64_round (b * 323) of
                Inl e \<Rightarrow> Inl e
              | Inr c \<Rightarrow> Inr (py_int c))))"

text \<open>The functions the driver calls that are not part of the two files: numpy's
  \<^verbatim>\<open>np.random.seed\<close> and the packages \<^verbatim>\<open>cascade_models.thresholds\<close>,
  \<^verbatim>\<open>cascade_models.social_networks\<close> and \<^verbatim>\<open>cascade_models.cascades\<close>. They are
  parameters of the model. Each one that may draw random numbers takes the generator
  and returns the one it leaves behind; \<open>'stats\<close> is the cascade statistics table
  (\<open>empty_stats\<close> the empty one of line 58) and \<open>'fit\<close> the pair of fitness tables.\<close>

record ('stats, 'fit) collaborators =
  np_random_seed :: "int \<Rightarrow> rng"
  seed_thresholds :: "nat \<Rightarrow> real \<Rightarrow> real \<Rightarrow> rng \<Rightarrow> real list \<times> rng"
  assign_type :: "nat \<Rightarrow> rng \<Rightarrow> real list list \<times> rng"
  seed_social_network :: "nat \<Rightarrow> nat \<Rightarrow> string \<Rightarrow> rng \<Rightarrow> network \<times> rng"
  empty_stats :: "'stats"
  simulate_stim_sampling ::
    "nat \<Rightarrow> real \<Rightarrow> real \<Rightarrow> real list list \<Rightarrow> real list \<Rightarrow> rng \<Rightarrow>
     (real list \<times> int list \<times> nat list \<times> nat list) \<times> rng"
  simulate_cascade :: "network \<Rightarrow> int list \<Rightarrow> real list \<Rightarrow> rng \<Rightarrow> int list \<times> rng"
  get_cascade_stats ::
    "nat \<Rightarrow> nat list \<Rightarrow> nat list \<Rightarrow> int list \<Rightarrow> real list list \<Rightarrow> 'stats \<Rightarrow> 'stats"
  assess_fitness ::
    "nat \<Rightarrow> real \<Rightarrow> real \<Rightarrow> nat \<Rightarrow> network \<Rightarrow> real list \<Rightarrow> real list list \<Rightarrow> rng \<Rightarrow>
     'fit \<times> rng"

text \<open>What one run carries from timestep to timestep.\<close>

record 'stats sim_state =
  adjacency :: network
  cascade_size :: "'stats"
  behavior_data :: behavior_df
  gen :: rng

text \<open>The body of the loop, lines 66 to 101, at timestep \<open>t\<close>.\<close>

definition timestep ::
  "('stats, 'fit) collaborators \<Rightarrow> nat \<Rightarrow> real \<Rightarrow> real \<Rightarrow> real list \<Rightarrow> real list list \<Rightarrow>
   nat \<Rightarrow> nat \<Rightarrow> 'stats sim_state \<Rightarrow> error + 'stats sim_state" where
  "timestep cs n gamma psi thresh_mat type_mat timesteps t st =
     (case simulate_stim_sampling cs n gamma psi type_mat thresh_mat (gen st) of
        ((stim_sources, state_mat0, samplers, samplers_active), g1) \<Rightarrow>
     (case simulate_cascade cs (adjacency st) state_mat0 thresh_mat g1 of
        (state_mat, g2) \<Rightarrow>
     let cascade_size1 =
           (if int t < 5000 \<or> int timesteps - 5000 \<le> int t
            then get_cascade_stats cs t samplers samplers_active state_mat type_mat
                   (cascade_size st)
            else cascade_size st)
     in (case evaluate_behavior state_mat thresh_mat stim_sources type_mat (behavior_data st) of
           Inl e \<Rightarrow> Inl e
         | Inr (correct_state, behavior_data1) \<Rightarrow>
        (case adjust_tie (adjacency st) state_mat correct_state g2 of
           Inl e \<Rightarrow> Inl e
         | Inr (adjacency1, g3) \<Rightarrow>
             Inr \<lparr> adjacency = adjacency1, cascade_size = cascade_size1,
                   behavior_data = behavior_data1, gen = g3 \<rparr>))))"

text \<open>\<^verbatim>\<open>for t in range(timesteps)\<close>: the body at each \<open>t\<close> in turn; an exception
  ends the run.\<close>

primrec run_timesteps ::
  "(nat \<Rightarrow> 'st \<Rightarrow> error + 'st) \<Rightarrow> nat list \<Rightarrow> 'st \<Rightarrow> error + 'st" where
  "run_timesteps body [] st = Inr st"
| "run_timesteps body (t # ts) st =
     (case body t st of Inl e \<Rightarrow> Inl e | Inr st1 \<Rightarrow> run_timesteps body ts st1)"

text \<open>What the run hands to the files it saves (lines 129 to 136).\<close>

record ('stats, 'fit) sim_output =
  out_cascade_size :: "'stats"
  out_sn_final :: network
  out_sn_initial :: network
  out_thresh :: "real list"
  out_type :: "real list list"
  out_behavior_data :: behavior_df
  out_fitness :: "'fit"

text \<open>Lines 51 to 111, from the generator \<open>g\<close> that \<^verbatim>\<open>np.random.seed\<close> left.\<close>

definition run_seeded ::
  "('stats, 'fit) collaborators \<Rightarrow> nat \<Rightarrow> nat \<Rightarrow> real \<Rightarrow> real \<Rightarrow> nat \<Rightarrow> string \<Rightarrow> rng \<Rightarrow>
   error + ('stats, 'fit) sim_output" where
  "run_seeded cs n k gamma psi timesteps network_type g =
     (case seed_thresholds cs n 0 1 g of (thresh_mat, g1) \<Rightarrow>
     (case assign_type cs n g1 of (type_mat, g2) \<Rightarrow>
     (case seed_social_network cs n k network_type g2 of (adjacency0, g3) \<Rightarrow>
      let adjacency_initial = adjacency0;
          behavior_data0 =
            map (\<lambda>i. \<lparr> individual = i, true_positive = 0, false_negative = 0,
                        true_negative = 0, false_positive = 0 \<rparr>) [0..<n]
      in (case run_timesteps (timestep cs n gamma psi thresh_mat type_mat timesteps)
                [0..<timesteps]
                \<lparr> adjacency = adjacency0, cascade_size = empty_stats cs,
                  behavior_data = behavior_data0, gen = g3 \<rparr> of
            Inl e \<Rightarrow> Inl e
          | Inr st \<Rightarrow>
             (case assess_fitness cs n gamma psi 10000 (adjacency st) thresh_mat type_mat
                     (gen st) of
                (fitness, g4) \<Rightarrow>
                  Inr \<lparr> out_cascade_size = cascade_size st, out_sn_final = adjacency st,
                        out_sn_initial = adjacency_initial, out_thresh = thresh_mat,
                        out_type = type_mat, out_behavior_data = behavior_data st,
                        out_fitness = fitness \<rparr>)))))"

text \<open>\<^verbatim>\<open>sim_adjusting_network\<close>. The last argument is the state of the global generator
  when the function is called; line 49 replaces it. \<^verbatim>\<open>np.random.seed\<close> raises
  \<^verbatim>\<open>ValueError\<close> for a seed outside \<open>0 .. 2^32 - 1\<close>. The parameter \<open>p\<close> is not
  used by the code; \<^verbatim>\<open>outpath\<close> only names the files and is left out.\<close>

definition sim_adjusting_network ::
  "('stats, 'fit) collaborators \<Rightarrow> real \<Rightarrow> nat \<Rightarrow> nat \<Rightarrow> real \<Rightarrow> real \<Rightarrow> real \<Rightarrow> nat \<Rightarrow>
   string \<Rightarrow> rng \<Rightarrow> error + ('stats, 'fit) sim_output" where
  "sim_adjusting_network cs replicate_id n k gamma psi p timesteps network_type g_ambient =
     (case seed_of replicate_id gamma of
        Inl e \<Rightarrow> Inl e
      | Inr seed \<Rightarrow>
          if 0 \<le> seed \<and> seed < 2 ^ 32
          then run_seeded cs n k gamma psi timesteps network_type (np_random_seed cs seed)
          else Inl ValueError)"

section \<open>Properties of the tie adjuster\<close>

lemma np_where_eq_set: "set (np_where_eq xs v) = {i. i < length xs \<and> xs ! i = v}"
  by (auto simp: np_where_eq_def)

lemma random_choice_nonempty:
  "a \<noteq> [] \<Longrightarrow> random_choice a g = Inr (a ! (shd g mod length a), stl g)"
  by (simp add: random_choice_def)

lemma sum_list_update_int:
  fixes xs :: "int list"
  shows "j < length xs \<Longrightarrow> sum_list (xs[j := v]) = sum_list xs - xs ! j + v"
  by (induction xs arbitrary: j) (auto split: nat.splits)

lemma length_set_tie: "length (set_tie net i j v) = length net"
  by (simp add: set_tie_def)

lemma length_row_set_tie: "length (set_tie net i j v ! r) = length (net ! r)"
proof (cases "i < length net")
  case True
  then show ?thesis by (simp add: set_tie_def nth_list_update)
next
  case False
  then show ?thesis by (simp add: set_tie_def list_update_beyond)
qed

lemma form_tie_eq:
  "form_tie net g =
    (if net = [] then Inl ValueError
     else let f = shd g mod length net; pt = filter (\<lambda>j. j \<noteq> f) (np_where_eq (net ! f) 0) in
       if pt = [] then Inr (net, stl g)
       else Inr (set_tie net f (pt ! (shd (stl g) mod length pt)) 1, stl (stl g)))"
  by (simp add: form_tie_def random_choice_def Let_def)

lemma remove_tie_eq:
  "remove_tie net actives a nb g =
    (let pi = filter (\<lambda>ind. ind \<in> set nb) actives in
     if pi = [] then Inl ValueError
     else Inr (set_tie net a (pi ! (shd g mod length pi)) 0, stl g))"
  by (simp add: remove_tie_def random_choice_def Let_def)

lemma form_tie_cases:
  assumes "form_tie net g = Inr (net', g')"
  shows "(net' = net \<and> g' = stl g) \<or>
     (\<exists>f t. f < length net \<and> t < length (net ! f) \<and> net ! f ! t = 0 \<and> t \<noteq> f \<and>
        net' = set_tie net f t 1 \<and> g' = stl (stl g))"
proof -
  from assms have ne: "net \<noteq> []" by (auto simp: form_tie_eq split: if_splits)
  define f where "f = shd g mod length net"
  define pt where "pt = filter (\<lambda>j. j \<noteq> f) (np_where_eq (net ! f) 0)"
  have f: "f < length net" using ne by (simp add: f_def)
  show ?thesis
  proof (cases "pt = []")
    case True
    with assms ne show ?thesis by (simp add: form_tie_eq Let_def f_def pt_def)
  next
    case False
    define t where "t = pt ! (shd (stl g) mod length pt)"
    have "t \<in> set pt" using False by (simp add: t_def)
    then have t: "t < length (net ! f)" "net ! f ! t = 0" "t \<noteq> f"
      by (auto simp: pt_def np_where_eq_set)
    from assms ne False have "net' = set_tie net f t 1" "g' = stl (stl g)"
      by (simp_all add: form_tie_eq Let_def f_def pt_def t_def)
    with f t show ?thesis by blast
  qed
qed

lemma remove_tie_cases:
  assumes "remove_tie net actives a (np_where_eq (net ! a) 1) g = Inr (net1, g1)"
  shows "\<exists>b. b \<in> set actives \<and> b < length (net ! a) \<and> net ! a ! b = 1 \<and>
           net1 = set_tie net a b 0 \<and> g1 = stl g"
proof -
  define pi where "pi = filter (\<lambda>ind. ind \<in> set (np_where_eq (net ! a) 1)) actives"
  from assms have ne: "pi \<noteq> []"
    by (auto simp: remove_tie_eq Let_def pi_def split: if_splits)
  define b where "b = pi ! (shd g mod length pi)"
  have "b \<in> set pi" using ne by (simp add: b_def)
  then have b: "b \<in> set actives" "b < length (net ! a)" "net ! a ! b = 1"
    by (auto simp: pi_def np_where_eq_set)
  from assms ne have "net1 = set_tie net a b 0" "g1 = stl g"
    by (simp_all add: remove_tie_eq Let_def pi_def b_def)
  with b show ?thesis by blast
qed

lemma adjust_tie_cases:
  assumes "adjust_tie network states correct_behavior g = Inr (net', g')"
  shows "net' = network \<or>
    (\<exists>a b. a \<in> set (np_where_eq states 1) \<and> b \<in> set (np_where_eq states 1) \<and>
       a < length correct_behavior \<and> \<not> correct_behavior ! a \<and>
       a < length network \<and> b < length (network ! a) \<and> network ! a ! b = 1 \<and>
       (net' = set_tie network a b 0 \<or>
        (\<exists>f t. f < length network \<and> t < length (set_tie network a b 0 ! f) \<and>
           set_tie network a b 0 ! f ! t = 0 \<and> t \<noteq> f \<and>
           net' = set_tie (set_tie network a b 0) f t 1)))"
proof (cases "net' = network")
  case True
  then show ?thesis by simp
next
  case False
  define actives where "actives = np_where_eq states 1"
  from assms False have pos: "0 < sum_list actives"
    by (auto simp: adjust_tie_def Let_def actives_def split: if_splits)
  then have ne: "actives \<noteq> []" by auto
  define a where "a = actives ! (shd g mod length actives)"
  have a_in: "a \<in> set actives" using ne by (simp add: a_def)
  have rc: "random_choice actives g = Inr (a, stl g)"
    using ne by (simp add: random_choice_nonempty a_def)
  from assms pos rc have rest:
    "(if length correct_behavior \<le> a then Inl IndexError
      else if length network \<le> a then Inl IndexError
      else if \<not> correct_behavior ! a
           then (case remove_tie network actives a (np_where_eq (network ! a) 1) (stl g) of
                   Inl e \<Rightarrow> Inl e
                 | Inr (network1, g2) \<Rightarrow> form_tie network1 g2)
           else Inr (network, stl g)) = Inr (net', g')"
    unfolding adjust_tie_def Let_def actives_def [symmetric] by simp
  from rest False have a1: "a < length correct_behavior" and a2: "a < length network"
    and inc: "\<not> correct_behavior ! a"
    by (auto split: if_splits)
  from rest a1 a2 inc obtain network1 g2 where
    rm: "remove_tie network actives a (np_where_eq (network ! a) 1) (stl g) = Inr (network1, g2)"
    and fm: "form_tie network1 g2 = Inr (net', g')"
    by (auto split: sum.splits)
  from remove_tie_cases [OF rm] obtain b where
    b: "b \<in> set actives" "b < length (network ! a)" "network ! a ! b = 1"
       "network1 = set_tie network a b 0"
    by blast
  from form_tie_cases [OF fm] b(4) have
    "net' = set_tie network a b 0 \<or>
     (\<exists>f t. f < length network \<and> t < length (set_tie network a b 0 ! f) \<and>
        set_tie network a b 0 ! f ! t = 0 \<and> t \<noteq> f \<and>
        net' = set_tie (set_tie network a b 0) f t 1)"
    by (auto simp: length_set_tie)
  with a_in b a1 a2 inc show ?thesis
    unfolding actives_def by blast
qed

lemma set_tie_entry:
  assumes "r < length net" "c < length (net ! r)"
  shows "set_tie net i j v ! r ! c = (if r = i \<and> c = j then v else net ! r ! c)"
proof (cases "r = i")
  case True
  with assms show ?thesis by (simp add: set_tie_def nth_list_update)
next
  case False
  then show ?thesis by (simp add: set_tie_def)
qed

lemma set_tie_row_sum:
  assumes "i < length net" "j < length (net ! i)"
  shows "sum_list (set_tie net i j v ! r) =
           (if r = i then sum_list (net ! i) - net ! i ! j + v else sum_list (net ! r))"
  using assms by (simp add: set_tie_def nth_list_update sum_list_update_int)

lemma adjust_tie_entries:
  assumes ret: "adjust_tie network states correct_behavior g = Inr (network', g')"
  shows "length network' = length network \<and>
    (\<forall>i<length network. length (network' ! i) = length (network ! i)) \<and>
    (network' = network \<or>
     (\<exists>a b. states ! a = 1 \<and> states ! b = 1 \<and> \<not> correct_behavior ! a \<and>
        a < length network \<and> b < length (network ! a) \<and> network ! a ! b = 1 \<and>
        ((\<forall>i j. i < length network \<longrightarrow> j < length (network ! i) \<longrightarrow>
            network' ! i ! j = (if i = a \<and> j = b then 0 else network ! i ! j)) \<or>
         (\<exists>f t. t \<noteq> f \<and> ((f = a \<and> t = b) \<or> network ! f ! t = 0) \<and>
            (\<forall>i j. i < length network \<longrightarrow> j < length (network ! i) \<longrightarrow>
               network' ! i ! j = (if i = f \<and> j = t then 1
                                   else if i = a \<and> j = b then 0 else network ! i ! j))))))"
proof -
  from adjust_tie_cases [OF ret] consider
    (same) "network' = network"
  | (removed) a b where "a \<in> set (np_where_eq states 1)" "b \<in> set (np_where_eq states 1)"
      "\<not> correct_behavior ! a"
      "a < length network" "b < length (network ! a)" "network ! a ! b = 1"
      "network' = set_tie network a b 0"
  | (both) a b f t where "a \<in> set (np_where_eq states 1)" "b \<in> set (np_where_eq states 1)"
      "\<not> correct_behavior ! a"
      "a < length network" "b < length (network ! a)" "network ! a ! b = 1"
      "f < length network" "t < length (set_tie network a b 0 ! f)"
      "set_tie network a b 0 ! f ! t = 0" "t \<noteq> f"
      "network' = set_tie (set_tie network a b 0) f t 1"
    by blast
  then show ?thesis
  proof cases
    case same
    then show ?thesis by simp
  next
    case removed
    have shape: "length network' = length network \<and>
        (\<forall>i<length network. length (network' ! i) = length (network ! i))"
      by (simp add: removed(7) length_set_tie length_row_set_tie)
    have ent: "\<forall>i j. i < length network \<longrightarrow> j < length (network ! i) \<longrightarrow>
        network' ! i ! j = (if i = a \<and> j = b then 0 else network ! i ! j)"
      by (simp add: removed(7) set_tie_entry)
    have st: "states ! a = 1" "states ! b = 1"
      using removed(1,2) by (simp_all add: np_where_eq_set)
    from shape ent st removed(3,4,5,6) show ?thesis by blast
  next
    case both
    let ?n1 = "set_tie network a b 0"
    have shape: "length network' = length network \<and>
        (\<forall>i<length network. length (network' ! i) = length (network ! i))"
      by (simp add: both(11) length_set_tie length_row_set_tie)
    have t: "t < length (network ! f)" using both(8) by (simp add: length_row_set_tie)
    have ent: "\<forall>i j. i < length network \<longrightarrow> j < length (network ! i) \<longrightarrow>
        network' ! i ! j = (if i = f \<and> j = t then 1
                            else if i = a \<and> j = b then 0 else network ! i ! j)"
      by (simp add: both(11) set_tie_entry length_set_tie length_row_set_tie)
    have zero: "(f = a \<and> t = b) \<or> network ! f ! t = 0"
      using both(9) both(7) t by (simp add: set_tie_entry split: if_splits)
    have st: "states ! a = 1" "states ! b = 1"
      using both(1,2) by (simp_all add: np_where_eq_set)
    from shape ent zero st both(3,4,5,6,10) show ?thesis by blast
  qed
qed

subsection \<open>The guards of the removal step\<close>

text \<open>The two guards in general: with no active individual the call changes nothing and
  draws nothing; past the guard, an incorrect adjuster with no active neighbour makes the
  call raise.\<close>

lemma adjust_tie_no_active:
  assumes "np_where_eq states 1 = []"
  shows "adjust_tie network states correct_behavior g = Inr (network, g)"
  using assms by (simp add: adjust_tie_def)

lemma adjust_tie_index_sum_zero:
  assumes "sum_list (np_where_eq states 1) = 0"
  shows "adjust_tie network states correct_behavior g = Inr (network, g)"
  unfolding adjust_tie_def Let_def using assms by (simp del: sum_list_eq_0_iff)

lemma adjust_tie_empty_choice:
  assumes "0 < sum_list (np_where_eq states 1)"
    and "random_choice (np_where_eq states 1) g = Inr (a, g1)"
    and "a < length correct_behavior" "a < length network"
    and "\<not> correct_behavior ! a"
    and "filter (\<lambda>ind. ind \<in> set (np_where_eq (network ! a) 1)) (np_where_eq states 1) = []"
  shows "adjust_tie network states correct_behavior g = Inl ValueError"
  unfolding adjust_tie_def Let_def using assms by (simp add: remove_tie_eq)

text \<open>
  Claim C1: whenever at least one individual is active, the selected adjuster behaved
  incorrectly and has no active neighbour, \<^verbatim>\<open>adjust_tie\<close> returns the network
  unchanged and raises no error.

  The code does not do so. With two individuals, individual 1 the only active one and
  incorrect, and its only tie going to the inactive individual 0, the guard of line 190
  passes (the sum of the active indices is 1), the list \<^verbatim>\<open>perceived_incorrect\<close> of
  line 197 is empty, and \<^verbatim>\<open>np.random.choice\<close> of line 198 raises
  \<^verbatim>\<open>ValueError\<close>, whatever the generator holds. The formation step in the same
  function guards its own draw (line 207).
\<close>

theorem adjust_tie_no_active_neighbor_raises:
  "adjust_tie [[0, 1], [1, 0]] [0, 1] [False, False] g = Inl ValueError"
  by (simp add: adjust_tie_def np_where_eq_def random_choice_def remove_tie_def Let_def)

text \<open>
  Claim C2: \<^verbatim>\<open>adjust_tie\<close> leaves the network unchanged when no individual is
  active, and whenever at least one individual is active (also when the only active one
  is individual 0) it goes past the guard and selects an active individual as the
  adjuster.

  The guard of line 190 is \<^verbatim>\<open>sum(actives) > 0\<close>, the sum of the active indices, not
  their number. When individual 0 is the only active one the sum is 0: the function
  returns at once, the network as it was and the generator untouched, so no adjuster was
  drawn.
\<close>

theorem adjust_tie_only_individual_0_active:
  "adjust_tie network [1, 0] correct_behavior g = Inr (network, g)"
  by (simp add: adjust_tie_def np_where_eq_def)

subsection \<open>What one call changes\<close>

text \<open>
  Claim C5: for every input network with a zero diagonal, the network that
  \<^verbatim>\<open>adjust_tie\<close> returns has a zero diagonal too: neither the removal nor the
  formation step sets an entry \<open>(i, i)\<close> to 1. The shape of the matrix is kept as well.
\<close>

theorem adjust_tie_no_self_loop:
  assumes ret: "adjust_tie network states correct_behavior g = Inr (network', g')"
    and diag: "\<forall>i<length network. i < length (network ! i) \<longrightarrow> network ! i ! i = 0"
  shows "length network' = length network \<and>
    (\<forall>i<length network. length (network' ! i) = length (network ! i) \<and>
       (i < length (network ! i) \<longrightarrow> network' ! i ! i = 0))"
proof -
  from adjust_tie_cases [OF ret] show ?thesis
    using diag by (auto simp: length_set_tie length_row_set_tie set_tie_entry)
qed

theorem adjust_tie_no_self_loop_witness:
  "adjust_tie [[0, 1, 0], [1, 0, 0], [0, 0, 0]] [1, 1, 0] [False, False, True]
       (1 ## 0 ## 2 ## 1 ## sconst 0)
     = Inr ([[0, 1, 0], [0, 0, 0], [0, 1, 0]], sconst 0) \<and>
   [[0, 1, 0], [0, 0, 0], [0, 1, 0::int]] ! 2 ! 2 = 0"
proof -
  let ?N = "[[0, 1, 0], [1, 0, 0], [0, 0, 0::int]]"
  have ret: "adjust_tie ?N [1, 1, 0] [False, False, True] (1 ## 0 ## 2 ## 1 ## sconst 0)
     = Inr ([[0, 1, 0], [0, 0, 0], [0, 1, 0]], sconst 0)"
    by (simp add: adjust_tie_def np_where_eq_def random_choice_def remove_tie_def form_tie_def
        set_tie_def Let_def)
  have diag: "\<forall>i<length ?N. i < length (?N ! i) \<longrightarrow> ?N ! i ! i = 0"
    by (simp add: less_Suc_eq numeral_3_eq_3)
  from adjust_tie_no_self_loop [OF ret diag] ret show ?thesis by simp
qed

text \<open>
  Claim C6: in every call that reaches the formation step (the guard passed, the adjuster
  \<open>a\<close> was drawn, is in range and incorrect, and the removal step returned the network
  \<open>network1\<close>), a former \<open>f\<close> is drawn; its candidates are the columns of its row that hold
  0, \<open>f\<close> itself left out. When there is a candidate, one of them is drawn (the draw picks
  by position, so each candidate can be the one) and that tie is set to 1; when there is
  none, the step changes nothing. Neither case raises.
\<close>

theorem adjust_tie_formation:
  assumes act: "0 < sum_list (np_where_eq states 1)"
    and adj: "random_choice (np_where_eq states 1) g = Inr (a, g1)"
    and inb: "a < length correct_behavior" "a < length network"
    and inc: "\<not> correct_behavior ! a"
    and rem: "remove_tie network (np_where_eq states 1) a (np_where_eq (network ! a) 1) g1
                = Inr (network1, g2)"
  shows "let f = shd g2 mod length network1;
             candidates = filter (\<lambda>j. network1 ! f ! j = 0 \<and> j \<noteq> f) [0..<length (network1 ! f)]
         in f < length network1 \<and>
            (if candidates = []
             then adjust_tie network states correct_behavior g = Inr (network1, stl g2)
             else let t = candidates ! (shd (stl g2) mod length candidates)
                  in t \<in> set candidates \<and> set_tie network1 f t 1 ! f ! t = 1 \<and>
                     adjust_tie network states correct_behavior g
                       = Inr (set_tie network1 f t 1, stl (stl g2)))"
proof -
  have run: "adjust_tie network states correct_behavior g = form_tie network1 g2"
    unfolding adjust_tie_def Let_def using act adj inb inc rem by simp
  from remove_tie_cases [OF rem] have len: "length network1 = length network"
    by (auto simp: length_set_tie)
  with inb have ne: "network1 \<noteq> []" by auto
  define f where "f = shd g2 mod length network1"
  define candidates where
    "candidates = filter (\<lambda>j. network1 ! f ! j = 0 \<and> j \<noteq> f) [0..<length (network1 ! f)]"
  have pt: "filter (\<lambda>j. j \<noteq> f) (np_where_eq (network1 ! f) 0) = candidates"
    by (simp add: np_where_eq_def candidates_def)
  have f: "f < length network1" using ne by (simp add: f_def)
  have form: "form_tie network1 g2 =
      (if candidates = [] then Inr (network1, stl g2)
       else Inr (set_tie network1 f (candidates ! (shd (stl g2) mod length candidates)) 1,
                 stl (stl g2)))"
    using ne by (simp add: form_tie_eq Let_def f_def [symmetric] pt)
  have "t \<in> set candidates \<Longrightarrow> set_tie network1 f t 1 ! f ! t = 1" for t
    using f by (simp add: candidates_def set_tie_entry)
  with f form run show ?thesis
    unfolding Let_def f_def [symmetric] candidates_def [symmetric] by simp
qed

theorem adjust_tie_formation_witness:
  "adjust_tie [[0, 1, 0], [1, 0, 0], [0, 0, 0]] [1, 1, 0] [False, False, True]
       (1 ## 0 ## 2 ## 1 ## sconst 0)
     = Inr ([[0, 1, 0], [0, 0, 0], [0, 1, 0]], sconst 0) \<and>
   adjust_tie [[0, 1], [1, 0]] [1, 1] [False, False] (1 ## 0 ## 0 ## sconst 0)
     = Inr ([[0, 1], [0, 0]], sconst 0)"
proof -
  let ?N = "[[0, 1, 0], [1, 0, 0], [0, 0, 0::int]]"
  let ?S = "[1, 1, 0::int]"
  let ?C = "[False, False, True]"
  have act: "0 < sum_list (np_where_eq ?S 1)"
    by (simp add: np_where_eq_def)
  have adj: "random_choice (np_where_eq ?S 1) (1 ## 0 ## 2 ## 1 ## sconst 0)
      = Inr (1, 0 ## 2 ## 1 ## sconst 0)"
    by (simp add: np_where_eq_def random_choice_def)
  have inb: "1 < length ?C" "1 < length ?N" by simp_all
  have inc: "\<not> ?C ! 1" by simp
  have rem: "remove_tie ?N (np_where_eq ?S 1) 1 (np_where_eq (?N ! 1) 1) (0 ## 2 ## 1 ## sconst 0)
      = Inr ([[0, 1, 0], [0, 0, 0], [0, 0, 0]], 2 ## 1 ## sconst 0)"
    by (simp add: np_where_eq_def random_choice_def remove_tie_def set_tie_def)
  have first: "adjust_tie ?N ?S ?C (1 ## 0 ## 2 ## 1 ## sconst 0)
      = Inr ([[0, 1, 0], [0, 0, 0], [0, 1, 0]], sconst 0)"
    using adjust_tie_formation [OF act adj inb inc rem]
    by (simp add: Let_def set_tie_def)
  let ?M = "[[0, 1], [1, 0::int]]"
  let ?T = "[1, 1::int]"
  let ?D = "[False, False]"
  have act2: "0 < sum_list (np_where_eq ?T 1)"
    by (simp add: np_where_eq_def)
  have adj2: "random_choice (np_where_eq ?T 1) (1 ## 0 ## 0 ## sconst 0)
      = Inr (1, 0 ## 0 ## sconst 0)"
    by (simp add: np_where_eq_def random_choice_def)
  have inb2: "1 < length ?D" "1 < length ?M" by simp_all
  have inc2: "\<not> ?D ! 1" by simp
  have rem2: "remove_tie ?M (np_where_eq ?T 1) 1 (np_where_eq (?M ! 1) 1) (0 ## 0 ## sconst 0)
      = Inr ([[0, 1], [0, 0]], 0 ## sconst 0)"
    by (simp add: np_where_eq_def random_choice_def remove_tie_def set_tie_def)
  have second: "adjust_tie ?M ?T ?D (1 ## 0 ## 0 ## sconst 0) = Inr ([[0, 1], [0, 0]], sconst 0)"
    using adjust_tie_formation [OF act2 adj2 inb2 inc2 rem2]
    by (simp add: Let_def)
  from first second show ?thesis by simp
qed

text \<open>
  Claim C7: for every call that returns normally, the out-degree (row sum) of each
  individual in the returned network differs from its out-degree in the input network by
  at most 1, in either direction.
\<close>

theorem adjust_tie_out_degree:
  assumes ret: "adjust_tie network states correct_behavior g = Inr (network', g')"
    and i: "i < length network"
  shows "\<bar>sum_list (network' ! i) - sum_list (network ! i)\<bar> \<le> 1"
proof -
  from adjust_tie_cases [OF ret] consider
    (same) "network' = network"
  | (removed) a b where "a < length network" "b < length (network ! a)" "network ! a ! b = 1"
      "network' = set_tie network a b 0"
  | (both) a b f t where "a < length network" "b < length (network ! a)" "network ! a ! b = 1"
      "f < length network" "t < length (set_tie network a b 0 ! f)"
      "set_tie network a b 0 ! f ! t = 0" "network' = set_tie (set_tie network a b 0) f t 1"
    by blast
  then show ?thesis
  proof cases
    case same
    then show ?thesis by simp
  next
    case removed
    then show ?thesis by (simp add: set_tie_row_sum)
  next
    case both
    let ?n1 = "set_tie network a b 0"
    have f1: "f < length ?n1" using both(4) by (simp add: length_set_tie)
    have "sum_list (network' ! i) =
            (if i = f then sum_list (?n1 ! f) - ?n1 ! f ! t + 1 else sum_list (?n1 ! i))"
      unfolding both(7) using f1 both(5) by (rule set_tie_row_sum)
    moreover have "sum_list (?n1 ! r) =
            (if r = a then sum_list (network ! a) - network ! a ! b + 0 else sum_list (network ! r))" for r
      using both(1,2) by (rule set_tie_row_sum)
    ultimately show ?thesis using both(3,6) by (simp split: if_splits)
  qed
qed

theorem adjust_tie_out_degree_witness:
  "adjust_tie [[0, 1], [1, 0]] [1, 1] [False, False] (0 ## 0 ## 1 ## sconst 0)
     = Inr ([[0, 0], [1, 0]], sconst 0) \<and>
   \<bar>sum_list ([[0, 0], [1, 0::int]] ! 0) - sum_list ([[0, 1], [1, 0]] ! 0)\<bar> \<le> 1"
proof -
  let ?N = "[[0, 1], [1, 0::int]]"
  have ret: "adjust_tie ?N [1, 1] [False, False] (0 ## 0 ## 1 ## sconst 0)
     = Inr ([[0, 0], [1, 0]], sconst 0)"
    by (simp add: adjust_tie_def np_where_eq_def random_choice_def remove_tie_def form_tie_def
        set_tie_def Let_def)
  have i: "0 < length ?N" by simp
  from adjust_tie_out_degree [OF ret i] ret show ?thesis by simp
qed

text \<open>
  Claim C9: a call that returns normally changes at most two entries of the adjacency
  matrix. An entry that changed either went from 1 to 0, and then it is the tie from an
  active, incorrect individual to an active one, or went from 0 to 1, and then it is off
  the diagonal; two changed entries that held the same value are the same entry, so at
  most one entry changes in each direction. Every other entry, and the shape of the
  matrix, is as in the input.
\<close>

theorem adjust_tie_frame:
  assumes ret: "adjust_tie network states correct_behavior g = Inr (network', g')"
  shows "length network' = length network \<and>
    (\<forall>i<length network. length (network' ! i) = length (network ! i)) \<and>
    (\<forall>i j. i < length network \<longrightarrow> j < length (network ! i) \<longrightarrow>
       network' ! i ! j \<noteq> network ! i ! j \<longrightarrow>
         (network ! i ! j = 1 \<and> network' ! i ! j = 0 \<and>
            states ! i = 1 \<and> \<not> correct_behavior ! i \<and> states ! j = 1) \<or>
         (network ! i ! j = 0 \<and> network' ! i ! j = 1 \<and> i \<noteq> j)) \<and>
    (\<forall>i j i' j'. i < length network \<longrightarrow> j < length (network ! i) \<longrightarrow>
       i' < length network \<longrightarrow> j' < length (network ! i') \<longrightarrow>
       network' ! i ! j \<noteq> network ! i ! j \<longrightarrow> network' ! i' ! j' \<noteq> network ! i' ! j' \<longrightarrow>
       network ! i ! j = network ! i' ! j' \<longrightarrow> i = i' \<and> j = j')"
proof -
  note E = adjust_tie_entries [OF ret]
  from E have shape: "length network' = length network"
    "\<forall>i<length network. length (network' ! i) = length (network ! i)" by blast+
  from E consider
    (same) "network' = network"
  | (removed) a b where "states ! a = 1" "states ! b = 1" "\<not> correct_behavior ! a"
      "network ! a ! b = 1"
      "\<forall>i j. i < length network \<longrightarrow> j < length (network ! i) \<longrightarrow>
            network' ! i ! j = (if i = a \<and> j = b then 0 else network ! i ! j)"
  | (both) a b f t where "states ! a = 1" "states ! b = 1" "\<not> correct_behavior ! a"
      "network ! a ! b = 1" "t \<noteq> f" "(f = a \<and> t = b) \<or> network ! f ! t = 0"
      "\<forall>i j. i < length network \<longrightarrow> j < length (network ! i) \<longrightarrow>
               network' ! i ! j = (if i = f \<and> j = t then 1
                                   else if i = a \<and> j = b then 0 else network ! i ! j)"
    by blast
  then have "(\<forall>i j. i < length network \<longrightarrow> j < length (network ! i) \<longrightarrow>
       network' ! i ! j \<noteq> network ! i ! j \<longrightarrow>
         (network ! i ! j = 1 \<and> network' ! i ! j = 0 \<and>
            states ! i = 1 \<and> \<not> correct_behavior ! i \<and> states ! j = 1) \<or>
         (network ! i ! j = 0 \<and> network' ! i ! j = 1 \<and> i \<noteq> j)) \<and>
    (\<forall>i j i' j'. i < length network \<longrightarrow> j < length (network ! i) \<longrightarrow>
       i' < length network \<longrightarrow> j' < length (network ! i') \<longrightarrow>
       network' ! i ! j \<noteq> network ! i ! j \<longrightarrow> network' ! i' ! j' \<noteq> network ! i' ! j' \<longrightarrow>
       network ! i ! j = network ! i' ! j' \<longrightarrow> i = i' \<and> j = j')"
  proof cases
    case same
    then show ?thesis by simp
  next
    case removed
    then show ?thesis by (auto split: if_splits)
  next
    case both
    then show ?thesis by (auto split: if_splits)
  qed
  with shape show ?thesis by blast
qed

theorem adjust_tie_frame_witness:
  "adjust_tie [[0, 1, 1], [1, 0, 0], [0, 0, 0]] [1, 0, 1] [False, True, True]
       (0 ## 3 ## 1 ## 4 ## sconst 0)
     = Inr ([[0, 1, 0], [1, 0, 1], [0, 0, 0]], sconst 0) \<and>
   length [[0, 1, 0], [1, 0, 1], [0, 0, 0::int]] = length [[0, 1, 1], [1, 0, 0], [0, 0, 0::int]] \<and>
   [[0, 1, 1], [1, 0, 0], [0, 0, 0::int]] ! 0 ! 2 = 1 \<and>
   [[0, 1, 0], [1, 0, 1], [0, 0, 0::int]] ! 0 ! 2 = 0 \<and>
   [[0, 1, 1], [1, 0, 0], [0, 0, 0::int]] ! 1 ! 2 = 0 \<and>
   [[0, 1, 0], [1, 0, 1], [0, 0, 0::int]] ! 1 ! 2 = 1"
proof -
  let ?N = "[[0, 1, 1], [1, 0, 0], [0, 0, 0::int]]"
  have ret: "adjust_tie ?N [1, 0, 1] [False, True, True] (0 ## 3 ## 1 ## 4 ## sconst 0)
     = Inr ([[0, 1, 0], [1, 0, 1], [0, 0, 0]], sconst 0)"
    by (simp add: adjust_tie_def np_where_eq_def random_choice_def remove_tie_def form_tie_def
        set_tie_def Let_def)
  from adjust_tie_frame [OF ret] ret show ?thesis by simp
qed

section \<open>Properties of the behavior evaluator\<close>











section \<open>Properties of the driver's seed\<close>

text \<open>An integer of magnitude below \<open>2^53\<close> is a float: rounding returns it.\<close>

lemma round_half_even_of_int: "round_half_even (of_int m) = m"
  by (simp add: round_half_even_def)

lemma float64_round_int:
  assumes "\<bar>n\<bar> < 2 ^ 53"
  shows "float64_round (of_int n) = Inr (of_int n)"
proof (cases "n = 0")
  case True
  then show ?thesis by (simp add: float64_round_def)
next
  case False
  define x :: real where "x = of_int n"
  define e where "e = \<lfloor>log 2 \<bar>x\<bar>\<rfloor>"
  have x1: "1 \<le> \<bar>x\<bar>" using False by (simp add: x_def)
  have x53: "\<bar>x\<bar> < 2 ^ 53"
  proof -
    have "real_of_int \<bar>n\<bar> < real_of_int (2 ^ 53)" using assms by (simp only: of_int_less_iff)
    then show ?thesis by (simp add: x_def)
  qed
  have e0: "0 \<le> e" using x1 by (simp add: e_def)
  have "log 2 \<bar>x\<bar> < 53"
  proof -
    have "(2::real) powr real 53 = 2 ^ 53" by (rule powr_realpow) simp
    then have "\<bar>x\<bar> < 2 powr 53" using x53 by simp
    moreover have "0 < \<bar>x\<bar>" using x1 by linarith
    ultimately show ?thesis by (simp add: log_less_iff)
  qed
  then have e52: "e \<le> 52" by (simp add: e_def floor_le_iff)
  have ex: "float64_exponent x = e" using e0 by (simp add: float64_exponent_def e_def)
  define k where "k = nat (52 - e)"
  have q: "2 powr real_of_int (e - 52) = 1 / 2 ^ k"
  proof -
    have "(2::real) powr real_of_int (e - 52)
            = (if 0 \<le> e - 52 then 2 ^ nat (e - 52) else 1 / 2 ^ nat (- (e - 52)))"
      by (rule powr_int) simp
    moreover have "- (e - 52) = 52 - e" by simp
    ultimately show ?thesis using e52 by (cases "e = 52") (simp_all add: k_def)
  qed
  have div: "x / (1 / 2 ^ k) = of_int (n * 2 ^ k)" by (simp add: x_def)
  have y: "of_int (round_half_even (x / (1 / 2 ^ k))) * (1 / 2 ^ k) = x"
    unfolding div round_half_even_of_int by (simp add: x_def)
  have "\<bar>x\<bar> < 2 ^ 1024"
  proof -
    have "(2::real) ^ 53 \<le> 2 ^ 1024" by (rule power_increasing) simp_all
    with x53 show ?thesis by linarith
  qed
  moreover have "x \<noteq> 0" using x1 by auto
  ultimately have "float64_round x = Inr x"
    unfolding float64_round_def Let_def ex q y by simp
  then show ?thesis by (simp add: x_def)
qed

lemma float64_round_tie: "float64_round (1 + - (1 / 2 ^ 54)) = Inr 1"
proof -
  define x :: real where "x = 1 + - (1 / 2 ^ 54)"
  have pos: "0 < x" by (simp add: x_def)
  have "\<lfloor>log 2 x\<rfloor> = - 1"
  proof -
    have "(2::real) powr real_of_int (- 1) \<le> x"
      by (simp add: x_def powr_minus_divide)
    moreover have "x < 2 powr real_of_int (- 1 + 1)"
      by (simp add: x_def)
    ultimately show ?thesis
      using pos by (simp only: floor_log_eq_powr_iff [of x 2 "- 1"])
  qed
  then have ex: "float64_exponent x = - 1"
    using pos by (simp add: float64_exponent_def)
  have q: "2 powr real_of_int (- 1 - 52) = 1 / 2 ^ 53"
  proof -
    have "(2::real) powr real_of_int (- 53)
            = (if 0 \<le> (- 53 :: int) then 2 ^ nat (- 53) else 1 / 2 ^ nat (- (- 53)))"
      by (rule powr_int) simp
    then show ?thesis by simp
  qed
  have xq: "x / (1 / 2 ^ 53) = 2 ^ 53 - 1 / 2" by (simp add: x_def)
  have fl: "\<lfloor>(2::real) ^ 53 - 1 / 2\<rfloor> = 2 ^ 53 - 1"
    by (simp add: floor_eq_iff)
  have r: "round_half_even (2 ^ 53 - 1 / 2) = 2 ^ 53"
    unfolding round_half_even_def Let_def fl by simp
  have y: "of_int (round_half_even (x / (1 / 2 ^ 53))) * (1 / 2 ^ 53) = (1::real)"
    unfolding xq r by simp
  have "x \<noteq> 0" using pos by simp
  then have "float64_round x = Inr 1"
    unfolding float64_round_def Let_def ex q y by simp
  then show ?thesis by (simp add: x_def)
qed

lemma seed_of_1_0: "seed_of 1 0 = Inr 646"
  using float64_round_int [of 2] float64_round_int [of 646]
  by (simp add: seed_of_def py_int_def)

lemma seed_of_0_1: "seed_of 0 1 = Inr 646"
  using float64_round_int [of 1] float64_round_int [of 2] float64_round_int [of 646]
  by (simp add: seed_of_def py_int_def)

text \<open>Rounding is visible in the seed: for replicate 0 and gamma \<open>- 2^-54\<close> the sum
  \<open>1 - 2^-54\<close> lies halfway between two floats and rounds to 1, so the seed is 323 (the
  exact product would truncate to 322).\<close>

lemma seed_of_rounds: "seed_of 0 (- (1 / 2 ^ 54)) = Inr 323"
  using float64_round_int [of 1] float64_round_int [of 323] float64_round_tie
  by (simp add: seed_of_def py_int_def)

text \<open>One run of the driver, with three individuals, one timestep and collaborators that
  return fixed values: the seed 646, one removal and one formation.\<close>

lemma sim_adjusting_network_example:
  "sim_adjusting_network
     \<lparr> np_random_seed = (\<lambda>seed. if seed = 646 then 0 ## 0 ## 2 ## 1 ## sconst 0 else sconst 0),
       seed_thresholds = (\<lambda>n lower upper g. ([1/2, 1/2, 1/2], g)),
       assign_type = (\<lambda>n g. ([[1, 0], [1, 0], [0, 1]], g)),
       seed_social_network = (\<lambda>n k network_type g. ([[0, 1, 0], [1, 0, 0], [0, 0, 0]], g)),
       empty_stats = ([] :: nat list),
       simulate_stim_sampling = (\<lambda>n gamma psi types thresholds g. (([0, 1], [1, 0, 0], [0], [0]), g)),
       simulate_cascade = (\<lambda>network states thresholds g. ([1, 1, 0], g)),
       get_cascade_stats = (\<lambda>t samplers active_samplers states types stats. stats @ [t]),
       assess_fitness = (\<lambda>n gamma psi trial_count network thresholds types g. (trial_count, g)) \<rparr>
     1 3 1 0 1 0 1 ''random'' (sconst 7)
   = Inr \<lparr> out_cascade_size = [0],
           out_sn_final = [[0, 0, 0], [1, 0, 0], [0, 1, 0]],
           out_sn_initial = [[0, 1, 0], [1, 0, 0], [0, 0, 0]],
           out_thresh = [1/2, 1/2, 1/2],
           out_type = [[1, 0], [1, 0], [0, 1]],
           out_behavior_data =
             [\<lparr>individual = 0, true_positive = 0, false_negative = 0, true_negative = 0, false_positive = 1\<rparr>,
              \<lparr>individual = 1, true_positive = 0, false_negative = 0, true_negative = 0, false_positive = 1\<rparr>,
              \<lparr>individual = 2, true_positive = 0, false_negative = 1, true_negative = 0, false_positive = 0\<rparr>],
           out_fitness = 10000 \<rparr>"
proof -
  let ?cs = "\<lparr> np_random_seed = (\<lambda>seed. if seed = 646 then 0 ## 0 ## 2 ## 1 ## sconst 0 else sconst 0),
       seed_thresholds = (\<lambda>n lower upper g. ([1/2, 1/2, 1/2], g)),
       assign_type = (\<lambda>n g. ([[1, 0], [1, 0], [0, 1]], g)),
       seed_social_network = (\<lambda>n k network_type g. ([[0, 1, 0], [1, 0, 0], [0, 0, 0]], g)),
       empty_stats = ([] :: nat list),
       simulate_stim_sampling = (\<lambda>n gamma psi types thresholds g. (([0, 1], [1, 0, 0], [0], [0]), g)),
       simulate_cascade = (\<lambda>network states thresholds g. ([1, 1, 0], g)),
       get_cascade_stats = (\<lambda>t samplers active_samplers states types stats. stats @ [t]),
       assess_fitness = (\<lambda>n gamma psi trial_count network thresholds types g. (trial_count, g)) \<rparr>"
  have upt3: "[0..<3] = [0, 1, 2]" by code_simp
  have run: "run_seeded ?cs 3 1 0 1 1 ''random'' (0 ## 0 ## 2 ## 1 ## sconst 0)
   = Inr \<lparr> out_cascade_size = [0],
           out_sn_final = [[0, 0, 0], [1, 0, 0], [0, 1, 0]],
           out_sn_initial = [[0, 1, 0], [1, 0, 0], [0, 0, 0]],
           out_thresh = [1/2, 1/2, 1/2],
           out_type = [[1, 0], [1, 0], [0, 1]],
           out_behavior_data =
             [\<lparr>individual = 0, true_positive = 0, false_negative = 0, true_negative = 0, false_positive = 1\<rparr>,
              \<lparr>individual = 1, true_positive = 0, false_negative = 0, true_negative = 0, false_positive = 1\<rparr>,
              \<lparr>individual = 2, true_positive = 0, false_negative = 1, true_negative = 0, false_positive = 0\<rparr>],
           out_fitness = 10000 \<rparr>"
    by (simp add: run_seeded_def timestep_def upt3 Let_def
        evaluate_behavior_def np_dot_def error_types_def np_and_def np_eq_def
        np_not_def update_behavior_def
        adjust_tie_def np_where_eq_def random_choice_def remove_tie_def form_tie_def
        set_tie_def)
  from seed_of_1_0 run show ?thesis by (simp add: sim_adjusting_network_def)
qed


text \<open>
  Claim C10: the seed is not an injective function of the replicate id and gamma: the
  pairs \<open>(1, 0.0)\<close> and \<open>(0, 1.0)\<close> both give the seed 646, so the two runs start from
  the same generator.
\<close>

theorem seed_of_not_injective:
  "seed_of 1 0 = Inr 646 \<and> seed_of 0 1 = Inr 646 \<and> (1::real, 0::real) \<noteq> (0, 1) \<and>
   \<not> inj (\<lambda>(replicate_id, gamma). seed_of replicate_id gamma) \<and>
   sim_adjusting_network cs 1 n k 0 psi p timesteps network_type g
     = run_seeded cs n k 0 psi timesteps network_type (np_random_seed cs 646) \<and>
   sim_adjusting_network cs 0 n k 1 psi p timesteps network_type g
     = run_seeded cs n k 1 psi timesteps network_type (np_random_seed cs 646)"
proof -
  note a = seed_of_1_0 and b = seed_of_0_1
  have "\<not> inj (\<lambda>(replicate_id, gamma). seed_of replicate_id gamma)"
  proof
    assume "inj (\<lambda>(replicate_id, gamma). seed_of replicate_id gamma)"
    then have "(1::real, 0::real) = (0, 1)"
      by (rule injD) (simp add: a b)
    then show False by simp
  qed
  with a b show ?thesis by (simp add: sim_adjusting_network_def)
qed

end
